theory Spec2Isabelle
  imports Main "HOL-Library.Word"
begin

section \<open>The remote side of freehold-sync: \<open>remote/remote.go\<close>\<close>

text \<open>
  \<open>remote.go\<close> wraps a file of a freehold server (a handle of the freehold-client
  library) as a \<open>File\<close> that the sync engine can read, write, delete, rename and monitor.
  The embedding follows the Go source function by function.

  \<^item> A Go pointer that may be nil is an \<open>option\<close>; reading a field or calling a method
    of the library through nil panics, and a panic is the outcome \<open>Panics\<close> of the type
    \<open>'a go\<close>.
  \<^item> A Go \<open>error\<close> result is an \<open>error option\<close> (\<open>None\<close> is Go's nil error).
  \<^item> A method with a pointer receiver that assigns to the receiver returns the receiver.
  \<^item> The package-level watch registry and a log of every call that leaves \<open>remote.go\<close>
    form the \<open>world\<close>, passed through every operation.
  \<^item> What the freehold-client library and the rest of the package answer, and how
    \<open>net/url\<close> renders a URL, is not part of the file: the answers are the fields of an
    \<open>env\<close>, and every theorem holds for all of them.
\<close>

subsection \<open>Go values\<close>

datatype 'a go = Panics | Returns 'a

type_synonym int64 = "64 word"

text \<open>
  Go's \<open>error\<close> values: \<open>ErrorString\<close> is what \<open>errors.New\<close> and \<open>fmt.Errorf\<close> build;
  the two others stand for the errors of the freehold-client library, \<open>NotFoundError\<close> for
  those that \<open>fh.IsNotFound\<close> accepts.
\<close>

datatype error = ErrorString string | NotFoundError | RemoteError string

fun IsNotFound :: "error option \<Rightarrow> bool" where
  "IsNotFound (Some NotFoundError) = True"
| "IsNotFound _ = False"

subsection \<open>The standard library: \<open>time\<close>\<close>

text \<open>
  A \<open>time.Time\<close> is represented by the calendar fields that its methods \<open>Date\<close>, \<open>Clock\<close>
  and \<open>Nanosecond\<close> return. \<open>time.Time{}\<close> is January 1 of year 1, 00:00:00.
\<close>

datatype month = January | February | March | April | May | June | July | August
  | September | October | November | December

record gotime =
  Year :: int
  Month :: month
  Day :: nat
  Hour :: nat
  Minute :: nat
  Second :: nat
  Nanosecond :: nat

definition zero_time :: gotime where
  "zero_time = \<lparr>Year = 1, Month = January, Day = 1, Hour = 0, Minute = 0, Second = 0,
     Nanosecond = 0\<rparr>"

fun shortMonth :: "month \<Rightarrow> string" where
  "shortMonth January = ''Jan''"
| "shortMonth February = ''Feb''"
| "shortMonth March = ''Mar''"
| "shortMonth April = ''Apr''"
| "shortMonth May = ''May''"
| "shortMonth June = ''Jun''"
| "shortMonth July = ''Jul''"
| "shortMonth August = ''Aug''"
| "shortMonth September = ''Sep''"
| "shortMonth October = ''Oct''"
| "shortMonth November = ''Nov''"
| "shortMonth December = ''Dec''"

definition digit :: "nat \<Rightarrow> char" where
  "digit n = ''0123456789'' ! (n mod 10)"

text \<open>The layout element \<open>_2\<close>: two columns, padded with a space.\<close>

definition pad_space2 :: "nat \<Rightarrow> string" where
  "pad_space2 n = (if n < 10 then [CHR '' '', digit n] else [digit (n div 10), digit n])"

text \<open>The layout elements \<open>15\<close>, \<open>04\<close> and \<open>05\<close>: two columns, padded with a zero.\<close>

definition pad_zero2 :: "nat \<Rightarrow> string" where
  "pad_zero2 n = [digit (n div 10), digit n]"

text \<open>\<open>t.Format(time.Stamp)\<close>, the layout \<open>Jan _2 15:04:05\<close>.\<close>

definition Format_Stamp :: "gotime \<Rightarrow> string" where
  "Format_Stamp t = shortMonth (Month t) @ '' '' @ pad_space2 (Day t) @ '' '' @
     pad_zero2 (Hour t) @ '':'' @ pad_zero2 (Minute t) @ '':'' @ pad_zero2 (Second t)"

subsection \<open>The standard library: \<open>strings\<close> and \<open>path/filepath\<close> (Unix)\<close>

definition HasSuffix :: "string \<Rightarrow> string \<Rightarrow> bool" where
  "HasSuffix s suffix \<longleftrightarrow>
     length suffix \<le> length s \<and> drop (length s - length suffix) s = suffix"

definition TrimSuffix :: "string \<Rightarrow> string \<Rightarrow> string" where
  "TrimSuffix s suffix =
     (if HasSuffix s suffix then take (length s - length suffix) s else s)"

definition IsPathSeparator :: "char \<Rightarrow> bool" where
  "IsPathSeparator c \<longleftrightarrow> c = CHR ''/''"

text \<open>
  \<open>filepath.Ext\<close> walks back from the end of the path to the first dot, and stops at a
  separator. \<open>ext_scan\<close> is that loop: its first argument is the part of the path still to
  the left, reversed, and its second the part already passed.
\<close>

fun ext_scan :: "string \<Rightarrow> string \<Rightarrow> string" where
  "ext_scan [] acc = []"
| "ext_scan (c # cs) acc =
     (if IsPathSeparator c then []
      else if c = CHR ''.'' then c # acc
      else ext_scan cs (c # acc))"

definition Ext :: "string \<Rightarrow> string" where
  "Ext path = ext_scan (rev path) []"

text \<open>
  \<open>filepath.Base\<close>: the last element of the path, after the trailing slashes are
  stripped; \<open>.\<close> for the empty path and \<open>/\<close> for a path of slashes only.
\<close>

definition Base :: "string \<Rightarrow> string" where
  "Base path =
     (if path = [] then ''.''
      else
        let stripped = rev (dropWhile IsPathSeparator (rev path));
            last_elem = rev (takeWhile (\<lambda>c. \<not> IsPathSeparator c) (rev stripped))
        in if last_elem = [] then ''/'' else last_elem)"

text \<open>
  \<open>filepath.Clean\<close>. \<open>clean_backtrack\<close> is the inner loop of the \<open>..\<close> case, which moves
  the write index \<open>w\<close> of the output buffer back to the last separator; \<open>clean_loop\<close> is
  the main loop, over the unread part of the path, the output buffer written so far and
  the index \<open>dotdot\<close> that a \<open>..\<close> element must not cross.
\<close>

function clean_backtrack :: "string \<Rightarrow> nat \<Rightarrow> nat \<Rightarrow> nat" where
  "clean_backtrack out dotdot w =
     (if w > dotdot \<and> \<not> IsPathSeparator (out ! w)
      then clean_backtrack out dotdot (w - 1) else w)"
  by pat_completeness auto
termination
  by (relation "measure (\<lambda>(out, dotdot, w). w)") auto

declare clean_backtrack.simps [simp del]

function clean_loop :: "bool \<Rightarrow> string \<Rightarrow> string \<Rightarrow> nat \<Rightarrow> string" where
  "clean_loop rooted [] out dotdot = out"
| "clean_loop rooted (c # rest) out dotdot =
     (if IsPathSeparator c then clean_loop rooted rest out dotdot
      else if c = CHR ''.'' \<and> (rest = [] \<or> IsPathSeparator (hd rest))
        then clean_loop rooted rest out dotdot
      else if c = CHR ''.'' \<and> rest \<noteq> [] \<and> hd rest = CHR ''.'' \<and>
              (tl rest = [] \<or> IsPathSeparator (hd (tl rest)))
        then (if length out > dotdot
              then clean_loop rooted (tl rest)
                     (take (clean_backtrack out dotdot (length out - 1)) out) dotdot
              else if \<not> rooted
              then (let out' = (if length out > 0 then out @ ''/'' else out) @ ''..''
                    in clean_loop rooted (tl rest) out' (length out'))
              else clean_loop rooted (tl rest) out dotdot)
      else
        (let out' = (if rooted \<and> length out \<noteq> 1 \<or> \<not> rooted \<and> length out \<noteq> 0
                     then out @ ''/'' else out)
         in clean_loop rooted (dropWhile (\<lambda>x. \<not> IsPathSeparator x) rest)
              (out' @ c # takeWhile (\<lambda>x. \<not> IsPathSeparator x) rest) dotdot))"
  by pat_completeness auto
termination
proof (relation "measure (\<lambda>(rooted, path, out, dotdot). length path)", goal_cases)
  case (7 rooted c rest out dotdot x)
  show ?case
    by (simp add: less_Suc_eq_le length_dropWhile_le)
qed simp_all

definition Clean :: "string \<Rightarrow> string" where
  "Clean path =
     (if path = [] then ''.''
      else
        let rooted = IsPathSeparator (hd path);
            out = (if rooted then clean_loop True (tl path) ''/'' 1
                   else clean_loop False path [] 0)
        in if out = [] then ''.'' else out)"

text \<open>\<open>filepath.Dir\<close>: the path up to its last separator, cleaned.\<close>

definition Dir :: "string \<Rightarrow> string" where
  "Dir path = Clean (rev (dropWhile (\<lambda>c. \<not> IsPathSeparator c) (rev path)))"

subsection \<open>The standard library: \<open>net/url\<close>\<close>

text \<open>
  The fields of a \<open>url.URL\<close>; \<open>User\<close> is a pointer to a \<open>Userinfo\<close>. \<open>remote.go\<close> assigns
  to \<open>Path\<close> and calls \<open>String\<close>. How \<open>String\<close> renders a URL (what it escapes in the
  user, the host, the path and the fragment, and when it prefers \<open>RawPath\<close>) is the
  business of the library: the rendering is a field of the \<open>env\<close> below, and what is proved
  holds for every rendering.
\<close>

record userinfo =
  username :: string
  password :: string
  passwordSet :: bool

record url =
  Scheme :: string
  Opaque :: string
  User :: "userinfo option"
  Host :: string
  Path :: string
  RawPath :: string
  OmitHost :: bool
  ForceQuery :: bool
  RawQuery :: string
  Fragment :: string
  RawFragment :: string

subsection \<open>The freehold-client library\<close>

text \<open>
  A handle \<open>*fh.File\<close> as \<open>remote.go\<close> uses it: the fields \<open>URL\<close>, \<open>Name\<close>, \<open>IsDir\<close> and
  \<open>Size\<close>, what the methods \<open>FullURL\<close> and \<open>ModifiedTime\<close> return, and what the remote
  answers when the children of the handle are listed (\<open>Children\<close>): an error, or the
  handles of the children. A handle is thus a node of the remote tree, and the remote
  tree below it is finite.
\<close>

datatype fh_file = FhFile
  (fh_URL: string)
  (fh_Name: string)
  (fh_IsDir: bool)
  (fh_Size: int64)
  (fh_FullURL: string)
  (fh_ModifiedTime: gotime)
  (fh_Children: "error + fh_file list")

text \<open>
  The literal \<open>&fh.File{URL: ..., Name: ..., IsDir: true}\<close> that \<open>Write\<close> builds as the
  destination of an upload; its other fields keep Go's zero values.
\<close>

record fh_dest =
  dest_URL :: string
  dest_Name :: string
  dest_IsDir :: bool

record client =
  RootURL :: url

text \<open>An \<open>io.ReadCloser\<close>: the bytes it delivers and what its \<open>Close\<close> returns.\<close>

datatype reader = Reader (rd_data: string) (rd_Close: "error option")

subsection \<open>The \<open>File\<close> struct\<close>

record File =
  file' :: "fh_file option"
  client :: "client option"
  Name :: string
  FullURL :: string
  URL :: string
  ModifiedTime :: gotime
  deleted :: bool
  exists :: bool

text \<open>\<open>syncer.Profile\<close>, of which \<open>remote.go\<close> uses the identity only.\<close>

datatype profile = Profile (profile_id: string)

subsection \<open>The world outside the entity\<close>

text \<open>Every call that leaves \<open>remote.go\<close> is logged, in the order of the calls.\<close>

datatype event =
    EvGetFile string
  | EvChildren string
  | EvFileDelete string
  | EvFileMove string string
  | EvUpload string reader int64 gotime fh_dest
  | EvReaderClose reader
  | EvDeleteFromDS string
  | EvChange "profile option" string
  | EvWatchAdd "profile option" string
  | EvWatchRemove "profile option" string

record world =
  watching :: "(profile option \<times> string) set"
  trace :: "event list"

definition log :: "event \<Rightarrow> world \<Rightarrow> world" where
  "log e w = w\<lparr>trace := trace w @ [e]\<rparr>"

text \<open>
  The rendering of a URL by \<open>URL.String\<close>, the answers of the remote server through
  freehold-client (\<open>GetFile\<close> and \<open>UploadFromReader\<close> of a client, \<open>Delete\<close> and \<open>Move\<close>
  of a handle), and the two functions of the package that are defined outside
  \<open>remote.go\<close>: \<open>deleteRemoteFileFromDS\<close> and \<open>changeHandler\<close>. \<open>Move\<close> also gives the handle as the
  library leaves it, since the library may refresh its URL; \<open>Delete\<close> is taken to leave
  the fields of the handle as they are. \<open>changeHandler\<close> may do anything to the world.
\<close>

record env =
  url_String :: "url \<Rightarrow> string"
  GetFile :: "client \<Rightarrow> string \<Rightarrow> fh_file option \<times> error option"
  UploadFromReader ::
    "client \<Rightarrow> string \<Rightarrow> reader \<Rightarrow> int64 \<Rightarrow> gotime \<Rightarrow> fh_dest \<Rightarrow> fh_file option \<times> error option"
  file_Delete :: "fh_file \<Rightarrow> error option"
  file_Move :: "fh_file \<Rightarrow> string \<Rightarrow> fh_file \<times> error option"
  deleteRemoteFileFromDS :: "string \<Rightarrow> error option"
  changeHandler :: "profile option \<Rightarrow> File \<Rightarrow> world \<Rightarrow> world"

subsection \<open>Construction\<close>

definition newFromFile :: "client option \<Rightarrow> fh_file \<Rightarrow> File" where
  "newFromFile c h =
     \<lparr>file' = Some h, client = c, Name = fh_Name h, FullURL = fh_FullURL h, URL = fh_URL h,
      ModifiedTime = fh_ModifiedTime h, deleted = False, exists = True\<rparr>"

text \<open>
  \<open>newEmptyFile\<close> sets the path of the URL that \<open>RootURL\<close> returns, which is taken to be
  a copy of the root URL of the client. The fields it does not mention keep Go's zero
  values.
\<close>

definition newEmptyFile :: "env \<Rightarrow> client \<Rightarrow> string \<Rightarrow> File" where
  "newEmptyFile E c filePath =
     (let uri = (RootURL c)\<lparr>Path := filePath\<rparr>
      in \<lparr>file' = None, client = Some c, Name = Base filePath,
          FullURL = url_String E uri, URL = filePath, ModifiedTime = zero_time,
          deleted = False, exists = False\<rparr>)"

definition New :: "env \<Rightarrow> client option \<Rightarrow> string \<Rightarrow> world \<Rightarrow> ((File option \<times> error option) \<times> world) go"
  where
  "New E c filePath w =
     (case c of
        None \<Rightarrow> Returns ((None, Some (ErrorString ''Can't retrieve a file with a nil client'')), w)
      | Some cl \<Rightarrow>
          let f = newEmptyFile E cl filePath;
              (fh, err) = GetFile E cl filePath;
              w1 = log (EvGetFile filePath) w
          in if IsNotFound err then Returns ((Some f, None), w1)
             else if err \<noteq> None then Returns ((None, err), w1)
             else (case fh of
                     None \<Rightarrow> Panics
                   | Some h \<Rightarrow> Returns ((Some (newFromFile c h), None), w1)))"

subsection \<open>Accessors\<close>

definition Client :: "File \<Rightarrow> client option" where
  "Client f = client f"

definition ID :: "File \<Rightarrow> string" where
  "ID f = FullURL f"

definition IsDir :: "File \<Rightarrow> bool go" where
  "IsDir f =
     (if \<not> exists f then Returns False
      else (case file' f of None \<Rightarrow> Panics | Some h \<Rightarrow> Returns (fh_IsDir h)))"

definition Modified :: "File \<Rightarrow> gotime go" where
  "Modified f =
     (case IsDir f of
        Panics \<Rightarrow> Panics
      | Returns d \<Rightarrow> Returns (if \<not> d \<and> exists f then ModifiedTime f else zero_time))"

definition Exists :: "File \<Rightarrow> bool" where
  "Exists f = exists f"

definition Size :: "File \<Rightarrow> int64 go" where
  "Size f =
     (if \<not> exists f then Returns 0
      else (case file' f of None \<Rightarrow> Panics | Some h \<Rightarrow> Returns (fh_Size h)))"

definition Deleted :: "File \<Rightarrow> bool" where
  "Deleted f = deleted f"

text \<open>
  \<open>Children\<close> returns no children and no error for an entity that does not exist;
  otherwise it lists the handle and wraps every child.
\<close>

definition Children :: "File \<Rightarrow> world \<Rightarrow> ((File list \<times> error option) \<times> world) go" where
  "Children f w =
     (if \<not> exists f then Returns (([], None), w)
      else (case file' f of
              None \<Rightarrow> Panics
            | Some h \<Rightarrow>
                (case fh_Children h of
                   Inl e \<Rightarrow> Returns (([], Some e), log (EvChildren (fh_URL h)) w)
                 | Inr children \<Rightarrow>
                     Returns ((map (newFromFile (Client f)) children, None),
                              log (EvChildren (fh_URL h)) w))))"

subsection \<open>Write\<close>

text \<open>
  The result is the error that \<open>Write\<close> returns, the receiver as \<open>Write\<close> leaves it, and
  the world. The reader is closed by the last statement only.
\<close>

definition Write ::
  "env \<Rightarrow> File \<Rightarrow> reader \<Rightarrow> int64 \<Rightarrow> gotime \<Rightarrow> world \<Rightarrow> (error option \<times> File \<times> world) go"
  where
  "Write E f r size' modTime w =
     (case IsDir f of
        Panics \<Rightarrow> Panics
      | Returns True \<Rightarrow>
          Returns (Some (ErrorString ''Can't write a directory with this method''), f, w)
      | Returns False \<Rightarrow>
          (case (if exists f
                 then (case file' f of
                         None \<Rightarrow> Panics
                       | Some h \<Rightarrow> Returns (file_Delete E h, log (EvFileDelete (fh_URL h)) w))
                 else Returns (None, w)) of
             Panics \<Rightarrow> Panics
           | Returns (Some e, w1) \<Rightarrow> Returns (Some e, f, w1)
           | Returns (None, w1) \<Rightarrow>
               (let dest = \<lparr>dest_URL = Dir (URL f), dest_Name = Base (Dir (URL f)),
                            dest_IsDir = True\<rparr>
                in case client f of
                     None \<Rightarrow> Panics
                   | Some cl \<Rightarrow>
                       (let (newFile, err) = UploadFromReader E cl (Name f) r size' modTime dest;
                            w2 = log (EvUpload (Name f) r size' modTime dest) w1
                        in case err of
                             Some e \<Rightarrow> Returns (Some e, f, w2)
                           | None \<Rightarrow>
                               Returns (rd_Close r,
                                 f\<lparr>file' := newFile, exists := True, deleted := False\<rparr>,
                                 log (EvReaderClose r) w2)))))"

subsection \<open>The watch registry\<close>

text \<open>
  Modelled from the spec: the variable \<open>watching\<close> and its methods \<open>has\<close>, \<open>add\<close> and
  \<open>remove\<close> are defined outside \<open>remote.go\<close>. The spec describes a set of (profile,
  entity identity) pairs, presence meaning that the directory is watched, with a
  membership test, add and remove. A nil profile is a key like any other. Adds and
  removes are logged like the calls that leave \<open>remote.go\<close>.
\<close>

definition watching_has :: "profile option \<Rightarrow> File \<Rightarrow> world \<Rightarrow> bool" where
  "watching_has p f w \<longleftrightarrow> (p, ID f) \<in> watching w"

definition watching_add :: "profile option \<Rightarrow> File \<Rightarrow> world \<Rightarrow> world" where
  "watching_add p f w =
     w\<lparr>watching := insert (p, ID f) (watching w), trace := trace w @ [EvWatchAdd p (ID f)]\<rparr>"

definition watching_remove :: "profile option \<Rightarrow> File \<Rightarrow> world \<Rightarrow> world" where
  "watching_remove p f w =
     w\<lparr>watching := watching w - {(p, ID f)}, trace := trace w @ [EvWatchRemove p (ID f)]\<rparr>"

subsection \<open>Monitoring\<close>

text \<open>The loop of \<open>StartMonitor\<close> that hands every child to \<open>changeHandler\<close>.\<close>

fun dispatch :: "env \<Rightarrow> profile option \<Rightarrow> File list \<Rightarrow> world \<Rightarrow> world" where
  "dispatch E p [] w = w"
| "dispatch E p (c # cs) w = dispatch E p cs (changeHandler E p c (log (EvChange p (ID c)) w))"

definition StartMonitor :: "env \<Rightarrow> profile option \<Rightarrow> File \<Rightarrow> world \<Rightarrow> (error option \<times> world) go"
  where
  "StartMonitor E p f w =
     (case IsDir f of
        Panics \<Rightarrow> Panics
      | Returns False \<Rightarrow>
          Returns (Some (ErrorString ''Can't start monitoring a non-directory''), w)
      | Returns True \<Rightarrow>
          if watching_has p f w then Returns (None, w)
          else (case Children f w of
                  Panics \<Rightarrow> Panics
                | Returns ((children, err), w1) \<Rightarrow>
                    (case err of
                       Some e \<Rightarrow> Returns (Some e, w1)
                     | None \<Rightarrow> Returns (None, watching_add p f (dispatch E p children w1)))))"

text \<open>
  \<open>stopWatcherRecursive\<close> lists the children of the entity, calls itself on every child
  that is a directory, and removes the entity from the registry last. \<open>stopChildren\<close> is
  its loop over the children, which stops at the first error. The recursion ends because
  every child handle is a part of the handle that listed it.
\<close>

definition handle_size :: "File \<Rightarrow> nat" where
  "handle_size f = (case file' f of None \<Rightarrow> 0 | Some h \<Rightarrow> size h)"

function stopWatcherRecursive :: "profile option \<Rightarrow> File \<Rightarrow> world \<Rightarrow> (error option \<times> world) go"
  and stopChildren :: "profile option \<Rightarrow> File list \<Rightarrow> world \<Rightarrow> (error option \<times> world) go"
  where
  "stopWatcherRecursive p f w =
     (case Children f w of
        Panics \<Rightarrow> Panics
      | Returns ((children, err), w1) \<Rightarrow>
          (case err of
             Some e \<Rightarrow> Returns (Some e, w1)
           | None \<Rightarrow>
               (case stopChildren p children w1 of
                  Panics \<Rightarrow> Panics
                | Returns (Some e, w2) \<Rightarrow> Returns (Some e, w2)
                | Returns (None, w2) \<Rightarrow> Returns (None, watching_remove p f w2))))"
| "stopChildren p [] w = Returns (None, w)"
| "stopChildren p (c # cs) w =
     (case IsDir c of
        Panics \<Rightarrow> Panics
      | Returns False \<Rightarrow> stopChildren p cs w
      | Returns True \<Rightarrow>
          (case stopWatcherRecursive p c w of
             Panics \<Rightarrow> Panics
           | Returns (Some e, w1) \<Rightarrow> Returns (Some e, w1)
           | Returns (None, w1) \<Rightarrow> stopChildren p cs w1))"
  by pat_completeness auto
termination
proof (relation "measure (\<lambda>x. case x of
          Inl (p, f, w) \<Rightarrow> 2 * handle_size f + 1
        | Inr (p, cs, w) \<Rightarrow> sum_list (map (\<lambda>c. 2 * handle_size c + 2) cs))", goal_cases)
  case 1
  show ?case by simp
next
  case (2 p f w x2 x y xa ya)
  have sum_eq: "sum_list (map (\<lambda>c. 2 * handle_size c + 2) (map (newFromFile cl) hs))
      = 2 * size_list size hs" for cl hs
    by (induction hs) (simp_all add: handle_size_def newFromFile_def)
  have "sum_list (map (\<lambda>c. 2 * handle_size c + 2) xa) < 2 * handle_size f + 1"
  proof (cases "exists f")
    case False
    with 2 show ?thesis by (auto simp: Children_def)
  next
    case True
    with 2 obtain h hs where h: "file' f = Some h" "fh_Children h = Inr hs"
      "xa = map (newFromFile (Client f)) hs"
      by (auto simp: Children_def split: option.splits sum.splits)
    have "size_list size hs < size h"
      using h(2) by (cases h) simp
    moreover have "handle_size f = size h"
      using h(1) by (simp add: handle_size_def)
    ultimately show ?thesis
      unfolding h(3) sum_eq by linarith
  qed
  then show ?case by simp
qed simp_all

declare stopWatcherRecursive.simps [simp del]


subsection \<open>Delete and Rename\<close>

definition Delete :: "env \<Rightarrow> File \<Rightarrow> world \<Rightarrow> (error option \<times> File \<times> world) go" where
  "Delete E f w =
     (if \<not> exists f then Returns (None, f, w)
      else
        let w1 = log (EvDeleteFromDS (ID f)) w
        in case deleteRemoteFileFromDS E (ID f) of
             Some e \<Rightarrow> Returns (Some e, f, w1)
           | None \<Rightarrow>
               (case IsDir f of
                  Panics \<Rightarrow> Panics
                | Returns d \<Rightarrow>
                    (case (if d then stopWatcherRecursive None f w1 else Returns (None, w1)) of
                       Panics \<Rightarrow> Panics
                     | Returns (Some e, w2) \<Rightarrow> Returns (Some e, f, w2)
                     | Returns (None, w2) \<Rightarrow>
                         (case file' f of
                            None \<Rightarrow> Panics
                          | Some h \<Rightarrow>
                              Returns (file_Delete E h, f, log (EvFileDelete (fh_URL h)) w2)))))"

text \<open>
  \<open>Rename\<close> takes the reading of the clock, \<open>time.Now()\<close>, as an argument. The new name is
  the second argument of the logged \<open>EvFileMove\<close>.
\<close>

definition Rename :: "env \<Rightarrow> File \<Rightarrow> gotime \<Rightarrow> world \<Rightarrow> (error option \<times> File \<times> world) go" where
  "Rename E f now w =
     (if \<not> Exists f
      then Returns (Some (ErrorString ''Can't Rename / Move a file which doesn't exist!''), f, w)
      else (case IsDir f of
              Panics \<Rightarrow> Panics
            | Returns True \<Rightarrow>
                Returns (Some (ErrorString ''Can't call rename on a directory''), f, w)
            | Returns False \<Rightarrow>
                (case file' f of
                   None \<Rightarrow> Panics
                 | Some h \<Rightarrow>
                     (let ext = Ext (fh_URL h);
                          newName = TrimSuffix (fh_URL h) ext;
                          newName = newName @ Format_Stamp now @ ext;
                          (h', err) = file_Move E h newName
                      in Returns (err, f\<lparr>file' := Some h'\<rparr>,
                                  log (EvFileMove (fh_URL h) newName) w)))))"

subsection \<open>Vocabulary of the claims about monitoring\<close>










subsection \<open>Vocabulary of the claims about renaming\<close>

text \<open>
  Two readings of the clock in the same wall-clock second, and the new name as the spec
  describes it: the path without its extension, the time stamp, the extension.
\<close>

definition same_second :: "gotime \<Rightarrow> gotime \<Rightarrow> bool" where
  "same_second t1 t2 \<longleftrightarrow>
     Year t1 = Year t2 \<and> Month t1 = Month t2 \<and> Day t1 = Day t2 \<and> Hour t1 = Hour t2 \<and>
     Minute t1 = Minute t2 \<and> Second t1 = Second t2"

definition spec_rename_target :: "string \<Rightarrow> gotime \<Rightarrow> string" where
  "spec_rename_target path t = TrimSuffix path (Ext path) @ Format_Stamp t @ Ext path"

subsection \<open>Example values\<close>

definition example_client :: client where
  "example_client =
     \<lparr>RootURL = \<lparr>Scheme = ''https'', Opaque = [], User = None, Host = ''files.example.org'',
        Path = [], RawPath = [], OmitHost = False, ForceQuery = False, RawQuery = [],
        Fragment = [], RawFragment = []\<rparr>\<rparr>"

definition example_profile :: "profile option" where
  "example_profile = Some (Profile ''work'')"

text \<open>Two readings of the clock, half a second apart.\<close>

definition example_time :: gotime where
  "example_time = \<lparr>Year = 2015, Month = March, Day = 7, Hour = 9, Minute = 30, Second = 5,
     Nanosecond = 0\<rparr>"

definition half_second_later :: gotime where
  "half_second_later = example_time\<lparr>Nanosecond := 500000000\<rparr>"

definition example_reader :: reader where
  "example_reader = Reader ''a,b,c'' None"

text \<open>
  A remote tree: the folder \<open>docs\<close> holds the file \<open>report.csv\<close> and the folders \<open>archive\<close>
  and \<open>projects\<close>; \<open>projects\<close> holds the folder \<open>alpha\<close>, whose listing succeeds
  (\<open>alpha\<close>) or fails (\<open>alpha_unreachable\<close>).
\<close>

definition report_csv :: fh_file where
  "report_csv = FhFile ''/v1/file/docs/report.csv'' ''report.csv'' False 120
     ''https://files.example.org/v1/file/docs/report.csv'' example_time (Inr [])"

definition folder :: "string \<Rightarrow> string \<Rightarrow> error + fh_file list \<Rightarrow> fh_file" where
  "folder path name answer =
     FhFile path name True 0 (''https://files.example.org'' @ path) zero_time answer"

definition archive :: fh_file where
  "archive = folder ''/v1/file/docs/archive'' ''archive'' (Inr [])"

definition alpha :: fh_file where
  "alpha = folder ''/v1/file/docs/projects/alpha'' ''alpha'' (Inr [])"


definition projects :: "fh_file \<Rightarrow> fh_file" where
  "projects a = folder ''/v1/file/docs/projects'' ''projects'' (Inr [a])"

definition docs :: "fh_file \<Rightarrow> fh_file" where
  "docs a = folder ''/v1/file/docs'' ''docs'' (Inr [report_csv, archive, projects a])"

text \<open>
  A world in which nothing is watched and nothing has been called, and one in which the
  four folders are watched for the profile \<open>work\<close>.
\<close>

definition empty_world :: world where
  "empty_world = \<lparr>watching = {}, trace = []\<rparr>"

definition watched_world :: world where
  "watched_world =
     \<lparr>watching = {(example_profile, ''https://files.example.org/v1/file/docs''),
                  (example_profile, ''https://files.example.org/v1/file/docs/archive''),
                  (example_profile, ''https://files.example.org/v1/file/docs/projects''),
                  (example_profile, ''https://files.example.org/v1/file/docs/projects/alpha'')},
      trace = []\<rparr>"

text \<open>
  An environment in which every call succeeds and no path is found, and its variants: one
  refuses every delete, one refuses every upload, one renames a handle in place (\<open>Move\<close>
  refreshes the URL and the name of the handle). The URLs of the examples have a scheme,
  a host and a path of letters, digits, dots and slashes, in which \<open>URL.String\<close> escapes
  nothing: it writes the scheme, \<open>://\<close>, the host and the path.
\<close>

definition example_env :: env where
  "example_env =
     \<lparr>url_String = (\<lambda>u. Scheme u @ ''://'' @ Host u @ Path u),
      GetFile = (\<lambda>c p. (None, Some NotFoundError)),
      UploadFromReader = (\<lambda>c name r n t d. (Some report_csv, None)),
      file_Delete = (\<lambda>h. None),
      file_Move = (\<lambda>h to. (h, None)),
      deleteRemoteFileFromDS = (\<lambda>i. None),
      changeHandler = (\<lambda>p f w. w)\<rparr>"

definition delete_fails_env :: env where
  "delete_fails_env = example_env\<lparr>file_Delete := (\<lambda>h. Some (RemoteError ''403 Forbidden''))\<rparr>"

definition upload_fails_env :: env where
  "upload_fails_env =
     example_env\<lparr>UploadFromReader :=
       (\<lambda>c name r n t d. (None, Some (RemoteError ''507 Insufficient Storage'')))\<rparr>"

definition moved :: "fh_file \<Rightarrow> string \<Rightarrow> fh_file" where
  "moved h to = FhFile to (Base to) (fh_IsDir h) (fh_Size h) (''https://files.example.org'' @ to)
     (fh_ModifiedTime h) (fh_Children h)"

definition renaming_env :: env where
  "renaming_env = example_env\<lparr>file_Move := (\<lambda>h to. (moved h to, None))\<rparr>"

lemmas example_defs = folder_def archive_def alpha_def projects_def docs_def report_csv_def
  watched_world_def example_profile_def

section \<open>Entities that do not exist\<close>

text \<open>
  Claim C1. For every \<open>File\<close> whose \<open>exists\<close> flag is false, \<open>Size\<close> returns 0, \<open>IsDir\<close>
  returns false and \<open>Modified\<close> returns the zero time. None of the three reads the handle,
  so none can panic.
\<close>

theorem absent_entity_defaults:
  "\<not> exists f \<Longrightarrow>
     Size f = Returns 0 \<and> IsDir f = Returns False \<and> Modified f = Returns zero_time"
  by (simp add: Size_def IsDir_def Modified_def)

text \<open>The placeholder that \<open>New\<close> builds for a path that is not found is such an entity.\<close>

theorem absent_entity_defaults_witness:
  "\<not> exists (newEmptyFile example_env example_client ''/v1/file/docs/new.txt'') \<and>
   Size (newEmptyFile example_env example_client ''/v1/file/docs/new.txt'') = Returns 0 \<and>
   IsDir (newEmptyFile example_env example_client ''/v1/file/docs/new.txt'') = Returns False \<and>
   Modified (newEmptyFile example_env example_client ''/v1/file/docs/new.txt'') = Returns zero_time"
proof -
  have absent: "\<not> exists (newEmptyFile example_env example_client ''/v1/file/docs/new.txt'')"
    by (simp add: newEmptyFile_def)
  from absent absent_entity_defaults [OF absent] show ?thesis
    by simp
qed

text \<open>
  Claim C4. When the remote reports that the path \<open>P\<close> is not found, \<open>New\<close> returns no
  error and a placeholder: \<open>exists\<close> is false, no handle is attached, the name is the base
  name of \<open>P\<close>, the url is \<open>P\<close> and the full URL is what \<open>URL.String\<close> renders for the
  root URL of the client with its path replaced by \<open>P\<close>. The only call made is the
  \<open>GetFile\<close>.
\<close>

theorem New_not_found_placeholder:
  assumes "GetFile E cl P = (fh, err)" and "IsNotFound err"
  shows "New E (Some cl) P w =
    Returns ((Some \<lparr>file' = None, client = Some cl, Name = Base P,
                     FullURL = url_String E ((RootURL cl)\<lparr>Path := P\<rparr>), URL = P,
                     ModifiedTime = zero_time, deleted = False, exists = False\<rparr>, None),
             log (EvGetFile P) w)"
  using assms by (simp add: New_def newEmptyFile_def)

theorem New_not_found_placeholder_witness:
  "GetFile example_env example_client ''/v1/file/docs/new.txt'' = (None, Some NotFoundError) \<and>
   IsNotFound (Some NotFoundError) \<and>
   New example_env (Some example_client) ''/v1/file/docs/new.txt'' empty_world =
    Returns ((Some \<lparr>file' = None, client = Some example_client, Name = ''new.txt'',
                     FullURL = ''https://files.example.org/v1/file/docs/new.txt'',
                     URL = ''/v1/file/docs/new.txt'',
                     ModifiedTime = zero_time, deleted = False, exists = False\<rparr>, None),
             \<lparr>watching = {}, trace = [EvGetFile ''/v1/file/docs/new.txt'']\<rparr>)"
proof -
  have answer: "GetFile example_env example_client ''/v1/file/docs/new.txt''
      = (None, Some NotFoundError)"
    by (simp add: example_env_def)
  have nf: "IsNotFound (Some NotFoundError)"
    by simp
  have base: "Base ''/v1/file/docs/new.txt'' = ''new.txt''"
    by (simp add: Base_def IsPathSeparator_def)
  have full: "url_String example_env
        ((RootURL example_client)\<lparr>Path := ''/v1/file/docs/new.txt''\<rparr>)
      = ''https://files.example.org/v1/file/docs/new.txt''"
    by (simp add: example_env_def example_client_def)
  from New_not_found_placeholder [OF answer nf, of empty_world] answer nf show ?thesis
    by (simp add: base full log_def empty_world_def)
qed

section \<open>Write\<close>

text \<open>
  Claim C9. For every entity that is a directory (it exists and its handle has the
  directory flag), \<open>Write\<close> returns the error of its first statement, which the spec
  classifies as InvalidOperation. The entity and the world are returned as they were: the
  log has no new call, so neither a delete nor an upload was issued.
\<close>

theorem Write_directory_refused:
  assumes "exists f" and "file' f = Some h" and "fh_IsDir h"
  shows "Write E f r n modTime w =
    Returns (Some (ErrorString ''Can't write a directory with this method''), f, w)"
  using assms by (simp add: Write_def IsDir_def)

theorem Write_directory_refused_witness:
  "exists (newFromFile (Some example_client) (docs alpha)) \<and>
   file' (newFromFile (Some example_client) (docs alpha)) = Some (docs alpha) \<and>
   fh_IsDir (docs alpha) \<and>
   Write example_env (newFromFile (Some example_client) (docs alpha)) example_reader 80
     example_time empty_world =
   Returns (Some (ErrorString ''Can't write a directory with this method''),
     newFromFile (Some example_client) (docs alpha), \<lparr>watching = {}, trace = []\<rparr>)"
proof -
  have 1: "exists (newFromFile (Some example_client) (docs alpha))"
    and 2: "file' (newFromFile (Some example_client) (docs alpha)) = Some (docs alpha)"
    by (simp_all add: newFromFile_def)
  have 3: "fh_IsDir (docs alpha)"
    by (simp add: example_defs)
  from Write_directory_refused [OF 1 2 3, of example_env example_reader 80 example_time
      empty_world] 1 2 3
  show ?thesis
    by (simp add: empty_world_def)
qed

text \<open>
  Claim C5. For every existing entity that is not a directory, when the delete of the old
  remote object fails, \<open>Write\<close> returns the error of the delete and the entity with every
  field as before. The delete is the only call made.
\<close>

theorem Write_delete_failure:
  assumes "exists f" and "file' f = Some h" and "\<not> fh_IsDir h"
    and "file_Delete E h = Some e"
  shows "Write E f r n modTime w = Returns (Some e, f, log (EvFileDelete (fh_URL h)) w)"
  using assms by (simp add: Write_def IsDir_def)

theorem Write_delete_failure_witness:
  "exists (newFromFile (Some example_client) report_csv) \<and>
   file' (newFromFile (Some example_client) report_csv) = Some report_csv \<and>
   \<not> fh_IsDir report_csv \<and>
   file_Delete delete_fails_env report_csv = Some (RemoteError ''403 Forbidden'') \<and>
   Write delete_fails_env (newFromFile (Some example_client) report_csv) example_reader 80
     example_time empty_world =
   Returns (Some (RemoteError ''403 Forbidden''), newFromFile (Some example_client) report_csv,
     \<lparr>watching = {}, trace = [EvFileDelete ''/v1/file/docs/report.csv'']\<rparr>)"
proof -
  have 1: "exists (newFromFile (Some example_client) report_csv)"
    and 2: "file' (newFromFile (Some example_client) report_csv) = Some report_csv"
    by (simp_all add: newFromFile_def)
  have 3: "\<not> fh_IsDir report_csv"
    by (simp add: report_csv_def)
  have 4: "file_Delete delete_fails_env report_csv = Some (RemoteError ''403 Forbidden'')"
    by (simp add: delete_fails_env_def)
  have 5: "fh_URL report_csv = ''/v1/file/docs/report.csv''"
    by (simp add: report_csv_def)
  from Write_delete_failure [OF 1 2 3 4, of example_reader 80 example_time empty_world]
    1 2 3 4 show ?thesis
    by (simp add: 5 log_def empty_world_def)
qed

text \<open>
  Claim C10. For every existing entity that is not a directory, when the delete of the old
  remote object succeeds and the upload fails, \<open>Write\<close> returns the error of the upload
  and the entity with every field as before: \<open>exists\<close> is still true and the old handle
  is still attached, although the delete of the remote object has been issued and has
  succeeded.
\<close>

theorem Write_upload_failure:
  assumes "exists f" and "file' f = Some h" and "\<not> fh_IsDir h"
    and "file_Delete E h = None"
    and "client f = Some cl"
    and "UploadFromReader E cl (Name f) r n modTime
           \<lparr>dest_URL = Dir (URL f), dest_Name = Base (Dir (URL f)), dest_IsDir = True\<rparr>
         = (newFile, Some e)"
  shows "Write E f r n modTime w =
    Returns (Some e, f,
      log (EvUpload (Name f) r n modTime
             \<lparr>dest_URL = Dir (URL f), dest_Name = Base (Dir (URL f)), dest_IsDir = True\<rparr>)
        (log (EvFileDelete (fh_URL h)) w))"
  using assms by (simp add: Write_def IsDir_def)

theorem Write_upload_failure_witness:
  "exists (newFromFile (Some example_client) report_csv) \<and>
   file' (newFromFile (Some example_client) report_csv) = Some report_csv \<and>
   \<not> fh_IsDir report_csv \<and>
   file_Delete upload_fails_env report_csv = None \<and>
   client (newFromFile (Some example_client) report_csv) = Some example_client \<and>
   Write upload_fails_env (newFromFile (Some example_client) report_csv) example_reader 80
     example_time empty_world =
   Returns (Some (RemoteError ''507 Insufficient Storage''),
     newFromFile (Some example_client) report_csv,
     \<lparr>watching = {},
      trace = [EvFileDelete ''/v1/file/docs/report.csv'',
               EvUpload ''report.csv'' example_reader 80 example_time
                 \<lparr>dest_URL = ''/v1/file/docs'', dest_Name = ''docs'', dest_IsDir = True\<rparr>]\<rparr>)"
proof -
  let ?f = "newFromFile (Some example_client) report_csv"
  have 1: "exists ?f" and 2: "file' ?f = Some report_csv"
    and 5: "client ?f = Some example_client"
    by (simp_all add: newFromFile_def)
  have 3: "\<not> fh_IsDir report_csv"
    by (simp add: report_csv_def)
  have 4: "file_Delete upload_fails_env report_csv = None"
    by (simp add: upload_fails_env_def example_env_def)
  have 6: "UploadFromReader upload_fails_env example_client (Name ?f) example_reader 80
      example_time
      \<lparr>dest_URL = Dir (URL ?f), dest_Name = Base (Dir (URL ?f)), dest_IsDir = True\<rparr>
      = (None, Some (RemoteError ''507 Insufficient Storage''))"
    by (simp add: upload_fails_env_def)
  have 7: "fh_URL report_csv = ''/v1/file/docs/report.csv''"
    and 8: "URL ?f = ''/v1/file/docs/report.csv''" and 9: "Name ?f = ''report.csv''"
    by (simp_all add: report_csv_def newFromFile_def)
  from Write_upload_failure [OF 1 2 3 4 5 6, of empty_world] 1 2 3 4 5 show ?thesis
    unfolding 7 8 9
    by (simp add: log_def empty_world_def Dir_def Clean_def Base_def IsPathSeparator_def)
qed

text \<open>
  Claim C6 says that \<open>Write\<close> closes the reader on every exit path. The code closes it in
  its last statement only. On a directory entity and on a failing delete \<open>Write\<close> returns
  before any call has touched the reader, and on a failing upload it returns right after
  the upload: the log has no \<open>EvReaderClose\<close>. On the success path the close is the last
  call logged.
\<close>

theorem Write_closes_reader_on_success_only:
  "Write example_env (newFromFile (Some example_client) (docs alpha)) example_reader 80
     example_time empty_world =
     Returns (Some (ErrorString ''Can't write a directory with this method''),
       newFromFile (Some example_client) (docs alpha), \<lparr>watching = {}, trace = []\<rparr>) \<and>
   Write delete_fails_env (newFromFile (Some example_client) report_csv) example_reader 80
     example_time empty_world =
     Returns (Some (RemoteError ''403 Forbidden''), newFromFile (Some example_client) report_csv,
       \<lparr>watching = {}, trace = [EvFileDelete ''/v1/file/docs/report.csv'']\<rparr>) \<and>
   Write upload_fails_env (newFromFile (Some example_client) report_csv) example_reader 80
     example_time empty_world =
     Returns (Some (RemoteError ''507 Insufficient Storage''),
       newFromFile (Some example_client) report_csv,
       \<lparr>watching = {},
        trace = [EvFileDelete ''/v1/file/docs/report.csv'',
                 EvUpload ''report.csv'' example_reader 80 example_time
                   \<lparr>dest_URL = ''/v1/file/docs'', dest_Name = ''docs'', dest_IsDir = True\<rparr>]\<rparr>) \<and>
   Write example_env (newFromFile (Some example_client) report_csv) example_reader 80
     example_time empty_world =
     Returns (None, newFromFile (Some example_client) report_csv,
       \<lparr>watching = {},
        trace = [EvFileDelete ''/v1/file/docs/report.csv'',
                 EvUpload ''report.csv'' example_reader 80 example_time
                   \<lparr>dest_URL = ''/v1/file/docs'', dest_Name = ''docs'', dest_IsDir = True\<rparr>,
                 EvReaderClose example_reader]\<rparr>)"
  by (simp add: Write_def IsDir_def newFromFile_def example_defs delete_fails_env_def
      upload_fails_env_def example_env_def example_reader_def empty_world_def log_def Dir_def
      Clean_def Base_def IsPathSeparator_def)

section \<open>Monitoring\<close>

text \<open>
  Claim C3. \<open>StartMonitor\<close> on an entity that is not a directory returns the error of its
  first statement, which the spec classifies as InvalidOperation, and leaves the world as
  it was. On a directory that is already in the registry for the profile it returns no
  error and leaves the world as it was: no listing, no change event, no registry update.
  A call that follows a successful call is such a call, whatever \<open>changeHandler\<close> did.
\<close>

theorem StartMonitor_guards:
  "(IsDir f = Returns False \<longrightarrow>
      StartMonitor E p f w =
        Returns (Some (ErrorString ''Can't start monitoring a non-directory''), w)) \<and>
   (IsDir f = Returns True \<and> watching_has p f w \<longrightarrow>
      StartMonitor E p f w = Returns (None, w)) \<and>
   (StartMonitor E p f w = Returns (None, w') \<longrightarrow>
      StartMonitor E' p f w' = Returns (None, w'))"
proof (intro conjI impI)
  assume "IsDir f = Returns False"
  then show "StartMonitor E p f w =
      Returns (Some (ErrorString ''Can't start monitoring a non-directory''), w)"
    by (simp add: StartMonitor_def)
next
  assume "IsDir f = Returns True \<and> watching_has p f w"
  then show "StartMonitor E p f w = Returns (None, w)"
    by (simp add: StartMonitor_def)
next
  assume first: "StartMonitor E p f w = Returns (None, w')"
  then have dir: "IsDir f = Returns True"
    by (auto simp: StartMonitor_def split: go.splits bool.splits)
  have "watching_has p f w'"
  proof (cases "watching_has p f w")
    case True
    with first dir show ?thesis by (simp add: StartMonitor_def)
  next
    case False
    with first dir obtain w1 where "w' = watching_add p f w1"
      by (auto simp: StartMonitor_def split: go.splits option.splits)
    then show ?thesis by (simp add: watching_has_def watching_add_def)
  qed
  with dir show "StartMonitor E' p f w' = Returns (None, w')"
    by (simp add: StartMonitor_def)
qed


theorem StartMonitor_guards_witness:
  "IsDir (newFromFile (Some example_client) report_csv) = Returns False \<and>
   StartMonitor example_env example_profile (newFromFile (Some example_client) report_csv)
     watched_world =
     Returns (Some (ErrorString ''Can't start monitoring a non-directory''), watched_world) \<and>
   IsDir (newFromFile (Some example_client) (docs alpha)) = Returns True \<and>
   watching_has example_profile (newFromFile (Some example_client) (docs alpha)) watched_world \<and>
   StartMonitor example_env example_profile (newFromFile (Some example_client) (docs alpha))
     watched_world = Returns (None, watched_world) \<and>
   StartMonitor example_env example_profile (newFromFile (Some example_client) (docs alpha))
     empty_world =
     Returns (None,
       \<lparr>watching = {(example_profile, ''https://files.example.org/v1/file/docs'')},
        trace = [EvChildren ''/v1/file/docs'',
                 EvChange example_profile ''https://files.example.org/v1/file/docs/report.csv'',
                 EvChange example_profile ''https://files.example.org/v1/file/docs/archive'',
                 EvChange example_profile ''https://files.example.org/v1/file/docs/projects'',
                 EvWatchAdd example_profile ''https://files.example.org/v1/file/docs'']\<rparr>) \<and>
   StartMonitor example_env example_profile (newFromFile (Some example_client) (docs alpha))
     \<lparr>watching = {(example_profile, ''https://files.example.org/v1/file/docs'')},
      trace = [EvChildren ''/v1/file/docs'',
               EvChange example_profile ''https://files.example.org/v1/file/docs/report.csv'',
               EvChange example_profile ''https://files.example.org/v1/file/docs/archive'',
               EvChange example_profile ''https://files.example.org/v1/file/docs/projects'',
               EvWatchAdd example_profile ''https://files.example.org/v1/file/docs'']\<rparr> =
     Returns (None,
       \<lparr>watching = {(example_profile, ''https://files.example.org/v1/file/docs'')},
        trace = [EvChildren ''/v1/file/docs'',
                 EvChange example_profile ''https://files.example.org/v1/file/docs/report.csv'',
                 EvChange example_profile ''https://files.example.org/v1/file/docs/archive'',
                 EvChange example_profile ''https://files.example.org/v1/file/docs/projects'',
                 EvWatchAdd example_profile ''https://files.example.org/v1/file/docs'']\<rparr>)"
proof -
  let ?file = "newFromFile (Some example_client) report_csv"
  let ?dir = "newFromFile (Some example_client) (docs alpha)"
  let ?w1 = "\<lparr>watching = {(example_profile, ''https://files.example.org/v1/file/docs'')},
        trace = [EvChildren ''/v1/file/docs'',
                 EvChange example_profile ''https://files.example.org/v1/file/docs/report.csv'',
                 EvChange example_profile ''https://files.example.org/v1/file/docs/archive'',
                 EvChange example_profile ''https://files.example.org/v1/file/docs/projects'',
                 EvWatchAdd example_profile ''https://files.example.org/v1/file/docs'']\<rparr>"
  have not_dir: "IsDir ?file = Returns False"
    by (simp add: IsDir_def newFromFile_def report_csv_def)
  have is_dir: "IsDir ?dir = Returns True"
    by (simp add: IsDir_def newFromFile_def example_defs)
  have watched: "watching_has example_profile ?dir watched_world"
    by (simp add: watching_has_def ID_def newFromFile_def example_defs)
  have first: "StartMonitor example_env example_profile ?dir empty_world = Returns (None, ?w1)"
    by (simp add: StartMonitor_def IsDir_def watching_has_def empty_world_def Children_def
        newFromFile_def ID_def Client_def log_def watching_add_def example_env_def example_defs)
  from StartMonitor_guards [of ?file example_env example_profile watched_world _ example_env]
    not_dir
  have "StartMonitor example_env example_profile ?file watched_world =
      Returns (Some (ErrorString ''Can't start monitoring a non-directory''), watched_world)"
    by simp
  moreover
  from StartMonitor_guards [of ?dir example_env example_profile watched_world _ example_env]
    is_dir watched
  have "StartMonitor example_env example_profile ?dir watched_world = Returns (None, watched_world)"
    by simp
  moreover
  from StartMonitor_guards [of ?dir example_env example_profile empty_world ?w1 example_env]
    first
  have "StartMonitor example_env example_profile ?dir ?w1 = Returns (None, ?w1)"
    by (simp del: One_nat_def)
  ultimately show ?thesis
    using not_dir is_dir watched first by (intro conjI)
qed

subsection \<open>Stopping: the teardown of a directory tree\<close>













section \<open>Delete and Rename\<close>

text \<open>
  Claim C8. When \<open>Delete\<close> succeeds on an existing entity (the call to
  \<open>deleteRemoteFileFromDS\<close>, the teardown of a directory and the remote delete all
  succeed), the entity is returned as it was: \<open>Exists\<close> is still true and \<open>Deleted\<close> has
  the value it had, false for every entity that \<open>remote.go\<close> builds.
\<close>

theorem Delete_success_keeps_flags:
  assumes "exists f" and "Delete E f w = Returns (None, f', w')"
  shows "f' = f \<and> Exists f' \<and> Deleted f' = Deleted f"
proof -
  from assms(2) have "f' = f"
    by (auto simp: Delete_def Let_def split: if_splits option.splits go.splits)
  with assms(1) show ?thesis by (simp add: Exists_def)
qed

theorem Delete_success_keeps_flags_witness:
  "exists (newFromFile (Some example_client) (docs alpha)) \<and>
   Delete example_env (newFromFile (Some example_client) (docs alpha)) watched_world =
     Returns (None, newFromFile (Some example_client) (docs alpha),
       watched_world\<lparr>trace :=
         [EvDeleteFromDS ''https://files.example.org/v1/file/docs'',
          EvChildren ''/v1/file/docs'', EvChildren ''/v1/file/docs/archive'',
          EvWatchRemove None ''https://files.example.org/v1/file/docs/archive'',
          EvChildren ''/v1/file/docs/projects'', EvChildren ''/v1/file/docs/projects/alpha'',
          EvWatchRemove None ''https://files.example.org/v1/file/docs/projects/alpha'',
          EvWatchRemove None ''https://files.example.org/v1/file/docs/projects'',
          EvWatchRemove None ''https://files.example.org/v1/file/docs'',
          EvFileDelete ''/v1/file/docs'']\<rparr>) \<and>
   Exists (newFromFile (Some example_client) (docs alpha)) \<and>
   \<not> Deleted (newFromFile (Some example_client) (docs alpha))"
proof -
  let ?f = "newFromFile (Some example_client) (docs alpha)"
  let ?w' = "watched_world\<lparr>trace :=
         [EvDeleteFromDS ''https://files.example.org/v1/file/docs'',
          EvChildren ''/v1/file/docs'', EvChildren ''/v1/file/docs/archive'',
          EvWatchRemove None ''https://files.example.org/v1/file/docs/archive'',
          EvChildren ''/v1/file/docs/projects'', EvChildren ''/v1/file/docs/projects/alpha'',
          EvWatchRemove None ''https://files.example.org/v1/file/docs/projects/alpha'',
          EvWatchRemove None ''https://files.example.org/v1/file/docs/projects'',
          EvWatchRemove None ''https://files.example.org/v1/file/docs'',
          EvFileDelete ''/v1/file/docs'']\<rparr>"
  have live: "exists ?f" and fresh: "\<not> Deleted ?f"
    by (simp_all add: newFromFile_def Deleted_def)
  have run: "Delete example_env ?f watched_world = Returns (None, ?f, ?w')"
    by (simp add: Delete_def IsDir_def newFromFile_def ID_def stopWatcherRecursive.simps
        Children_def Client_def log_def watching_remove_def example_env_def example_defs)
  from Delete_success_keeps_flags [OF live run] live run fresh show ?thesis
    by simp
qed

text \<open>
  Claim C7, as amended. \<open>Rename\<close> on an existing file moves it to the name that the spec
  describes, with the stamp of the call time in second precision. Two calls on an entity
  with the same handle URL in the same wall-clock second compute the same name, and the
  names of two calls differ exactly when the stamps of the call times differ.
\<close>

theorem Rename_target_by_stamp:
  assumes "exists f" and "file' f = Some h" and "\<not> fh_IsDir h"
  shows "Rename E f t w =
      Returns (snd (file_Move E h (spec_rename_target (fh_URL h) t)),
               f\<lparr>file' := Some (fst (file_Move E h (spec_rename_target (fh_URL h) t)))\<rparr>,
               log (EvFileMove (fh_URL h) (spec_rename_target (fh_URL h) t)) w) \<and>
    (same_second t t' \<longrightarrow>
      spec_rename_target (fh_URL h) t = spec_rename_target (fh_URL h) t') \<and>
    (spec_rename_target (fh_URL h) t = spec_rename_target (fh_URL h) t' \<longleftrightarrow>
      Format_Stamp t = Format_Stamp t')"
  using assms
  by (simp add: Rename_def Exists_def IsDir_def Let_def spec_rename_target_def
      same_second_def Format_Stamp_def split: prod.splits)

theorem Rename_target_by_stamp_witness:
  "exists (newFromFile (Some example_client) report_csv) \<and>
   file' (newFromFile (Some example_client) report_csv) = Some report_csv \<and>
   \<not> fh_IsDir report_csv \<and>
   same_second example_time half_second_later \<and>
   spec_rename_target (fh_URL report_csv) example_time =
     ''/v1/file/docs/reportMar  7 09:30:05.csv'' \<and>
   spec_rename_target (fh_URL report_csv) half_second_later =
     ''/v1/file/docs/reportMar  7 09:30:05.csv'' \<and>
   Rename renaming_env (newFromFile (Some example_client) report_csv) half_second_later
     empty_world =
     Returns (None,
       (newFromFile (Some example_client) report_csv)
         \<lparr>file' := Some (moved report_csv ''/v1/file/docs/reportMar  7 09:30:05.csv'')\<rparr>,
       \<lparr>watching = {},
        trace = [EvFileMove ''/v1/file/docs/report.csv''
                   ''/v1/file/docs/reportMar  7 09:30:05.csv'']\<rparr>)"
proof -
  let ?f = "newFromFile (Some example_client) report_csv"
  have 1: "exists ?f" and 2: "file' ?f = Some report_csv"
    by (simp_all add: newFromFile_def)
  have 3: "\<not> fh_IsDir report_csv"
    by (simp add: report_csv_def)
  have close: "same_second example_time half_second_later"
    and swapped: "same_second half_second_later example_time"
    by (simp_all add: same_second_def half_second_later_def)
  have at_first: "spec_rename_target (fh_URL report_csv) example_time =
      ''/v1/file/docs/reportMar  7 09:30:05.csv''"
    by (simp add: spec_rename_target_def report_csv_def example_time_def Ext_def TrimSuffix_def
        HasSuffix_def IsPathSeparator_def Format_Stamp_def pad_space2_def pad_zero2_def
        digit_def)
  have url: "fh_URL report_csv = ''/v1/file/docs/report.csv''"
    by (simp add: report_csv_def)
  from Rename_target_by_stamp [OF 1 2 3,
      of renaming_env half_second_later empty_world example_time] swapped at_first
  have "spec_rename_target (fh_URL report_csv) half_second_later =
      ''/v1/file/docs/reportMar  7 09:30:05.csv''"
    and "Rename renaming_env ?f half_second_later empty_world =
      Returns (None,
        ?f\<lparr>file' := Some (moved report_csv ''/v1/file/docs/reportMar  7 09:30:05.csv'')\<rparr>,
        log (EvFileMove ''/v1/file/docs/report.csv''
               ''/v1/file/docs/reportMar  7 09:30:05.csv'') empty_world)"
    by (simp_all add: renaming_env_def url)
  with 1 2 3 close at_first show ?thesis
    by (simp add: log_def empty_world_def)
qed

text \<open>
  The claim as stated has two calls in the same second produce distinct names. Two calls
  on \<open>report.csv\<close> half a second apart both move it to \<open>reportMar  7 09:30:05.csv\<close>.
\<close>

theorem Rename_same_second_counterexample:
  "same_second example_time half_second_later \<and> example_time \<noteq> half_second_later \<and>
   fh_Name report_csv = ''report.csv'' \<and>
   Rename renaming_env (newFromFile (Some example_client) report_csv) example_time empty_world =
     Returns (None,
       (newFromFile (Some example_client) report_csv)
         \<lparr>file' := Some (moved report_csv ''/v1/file/docs/reportMar  7 09:30:05.csv'')\<rparr>,
       \<lparr>watching = {},
        trace = [EvFileMove ''/v1/file/docs/report.csv''
                   ''/v1/file/docs/reportMar  7 09:30:05.csv'']\<rparr>) \<and>
   Rename renaming_env (newFromFile (Some example_client) report_csv) half_second_later
     empty_world =
     Returns (None,
       (newFromFile (Some example_client) report_csv)
         \<lparr>file' := Some (moved report_csv ''/v1/file/docs/reportMar  7 09:30:05.csv'')\<rparr>,
       \<lparr>watching = {},
        trace = [EvFileMove ''/v1/file/docs/report.csv''
                   ''/v1/file/docs/reportMar  7 09:30:05.csv'']\<rparr>)"
  by (simp add: same_second_def half_second_later_def example_time_def report_csv_def
      Rename_def Exists_def IsDir_def newFromFile_def renaming_env_def example_env_def
      Ext_def TrimSuffix_def HasSuffix_def IsPathSeparator_def Format_Stamp_def pad_space2_def
      pad_zero2_def digit_def log_def empty_world_def Let_def)

end
